theory Spec2Isabelle
  imports Main "HOL-Library.Word" "HOL-Library.AList"
begin

section \<open>Severity scale (level.go)\<close>

text \<open>
  \<^verbatim>\<open>type Level = int\<close>: a Go \<open>int\<close>, taken at its 64-bit width, so that
  \<open>severity+1\<close> wraps as the machine addition does. Comparisons are the signed ones.
\<close>

type_synonym Level = "64 word"

definition LevelStd :: Level where "LevelStd = 0"
definition LevelCritical :: Level where "LevelCritical = 1"
definition LevelError :: Level where "LevelError = 2"
definition LevelWarning :: Level where "LevelWarning = 3"
definition LevelInfo :: Level where "LevelInfo = 4"
definition LevelDebug :: Level where "LevelDebug = 5"

text \<open>The map literal \<open>LevelNames\<close>, in the order of the source.\<close>

definition LevelNames :: "(Level \<times> string) list" where
  "LevelNames =
     [(LevelCritical, ''CRIT''),
      (LevelDebug, ''DEBUG''),
      (LevelError, ''ERROR''),
      (LevelInfo, ''INFO''),
      (LevelWarning, ''WARN''),
      (LevelStd, ''OUT'')]"

text \<open>\<open>LevelNames[severity]\<close>: indexing a Go map with an absent key gives the zero
  value, the empty string, and does not panic.\<close>

definition LevelNames_at :: "Level \<Rightarrow> string" where
  "LevelNames_at s = (case map_of LevelNames s of None \<Rightarrow> [] | Some n \<Rightarrow> n)"

text \<open>The declared severities.\<close>

definition declared :: "Level \<Rightarrow> bool" where
  "declared s \<longleftrightarrow> s \<in> {LevelStd, LevelCritical, LevelError, LevelWarning, LevelInfo, LevelDebug}"

section \<open>Options and construction\<close>

datatype error = IOError string

text \<open>An \<open>io.Writer\<close> is named by the stream it writes to; \<open>None\<close> is the nil
  interface. A \<open>func() time.Time\<close> is the real-time clock \<open>time.Now\<close> or a function
  of the user, given by the instants its successive calls within one call of \<open>Logf\<close>
  return.\<close>

datatype stream = OsStdout | OsStderr | Buffer nat

type_synonym time = nat

datatype clock = TimeNow | UserClock "nat \<Rightarrow> time"

record Options =
  Out :: "stream option"
  Err :: "stream option"
  Threshold :: Level
  Prefix :: string
  DisableTimestamps :: bool
  TimestampFormat :: string
  TimestampFunc :: "clock option"
  LogFatal :: bool
  DisableFunctionName :: bool
  DisableTags :: bool
  TagsContextKey :: string

definition ContextKeyLogger :: string where "ContextKeyLogger = ''loggy.Logger''"
definition ContextKeyTags :: string where "ContextKeyTags = ''loggy.Tags''"

text \<open>\<open>time.RFC3339\<close>, a constant of the Go standard library.\<close>

definition RFC3339 :: string where "RFC3339 = ''2006-01-02T15:04:05Z07:00''"

definition DefaultOptions :: Options where
  "DefaultOptions =
     \<lparr> Out = Some OsStdout,
       Err = Some OsStderr,
       Threshold = LevelInfo,
       Prefix = [],
       DisableTimestamps = False,
       TimestampFormat = RFC3339,
       TimestampFunc = Some TimeNow,
       LogFatal = False,
       DisableFunctionName = False,
       DisableTags = False,
       TagsContextKey = ContextKeyTags \<rparr>"

text \<open>The zero value of \<open>Options\<close>: what \<open>Options{}\<close> is in Go.\<close>

definition zero_options :: Options where
  "zero_options =
     \<lparr> Out = None, Err = None, Threshold = 0, Prefix = [], DisableTimestamps = False,
       TimestampFormat = [], TimestampFunc = None, LogFatal = False,
       DisableFunctionName = False, DisableTags = False, TagsContextKey = [] \<rparr>"

section \<open>Contexts and the tag maps they refer to\<close>

text \<open>
  The values of \<open>interface{}\<close> that the model follows: nil, strings and integers.
  A \<open>map[string]interface{}\<close> is a reference: the context holds the address, the heap
  holds the entries, so that an update made through one context is seen through every
  context holding the same address. The entries are an association list read with
  \<open>map_of\<close>; its order stands for one iteration order of \<open>range\<close>. A map value is
  the nil map or a map made by \<open>make\<close>: the nil map reads as empty, \<open>delete\<close> on it
  does nothing, and an assignment to an entry of it panics.
\<close>

datatype val = VNil | VStr string | VInt int

type_synonym tags = "(string \<times> val) list"

datatype mapref = NilMap | MapAt nat

datatype cval = CTags mapref | CLogger | COther val

text \<open>\<open>context.WithValue\<close> puts a pair in front; \<open>ctx.Value\<close> finds the first pair
  with the key.\<close>

type_synonym "context" = "(string \<times> cval) list"

definition WithValue :: "context \<Rightarrow> string \<Rightarrow> cval \<Rightarrow> context" where
  "WithValue ctx k v = (k, v) # ctx"

definition Value :: "context \<Rightarrow> string \<Rightarrow> cval option" where
  "Value ctx k = map_of ctx k"

record heap =
  maps :: "nat \<Rightarrow> tags"
  fresh :: nat

definition entries :: "heap \<Rightarrow> mapref \<Rightarrow> tags" where
  "entries h r = (case r of NilMap \<Rightarrow> [] | MapAt a \<Rightarrow> maps h a)"

record logger =
  options :: Options

text \<open>\<open>New\<close>: a nil stream, an empty timestamp format, a nil clock and an empty tags
  key are replaced from \<open>DefaultOptions\<close>; no other field is touched.\<close>

definition New :: "context \<Rightarrow> Options \<Rightarrow> logger \<times> context" where
  "New ctx opts =
     (let o1 = (if Out opts = None then opts\<lparr>Out := Out DefaultOptions\<rparr> else opts);
          o2 = (if Err o1 = None then o1\<lparr>Err := Err DefaultOptions\<rparr> else o1);
          o3 = (if TimestampFormat o2 = [] then o2\<lparr>TimestampFormat := TimestampFormat DefaultOptions\<rparr> else o2);
          o4 = (if TimestampFunc o3 = None then o3\<lparr>TimestampFunc := TimestampFunc DefaultOptions\<rparr> else o3);
          o5 = (if TagsContextKey o4 = [] then o4\<lparr>TagsContextKey := TagsContextKey DefaultOptions\<rparr> else o4);
          l = \<lparr> options = o5 \<rparr>
      in (l, WithValue ctx ContextKeyLogger CLogger))"

section \<open>The byte-intercepting Writer\<close>

text \<open>A \<open>WriteFn\<close> receives the inner sink and the bytes and returns an error or nil;
  what it did to the sink is the sink's new state.\<close>

type_synonym 's WriteFn = "'s \<Rightarrow> string \<Rightarrow> error option \<times> 's"

record 's Writer =
  handler :: "'s WriteFn"
  out :: 's

definition NewWriter :: "'s \<Rightarrow> 's WriteFn \<Rightarrow> 's Writer" where
  "NewWriter s fn = \<lparr> handler = fn, out = s \<rparr>"

text \<open>\<open>Writer.Write\<close> returns \<open>(n, err)\<close> and leaves the writer with the sink as the
  handler left it.\<close>

definition Write :: "'s Writer \<Rightarrow> string \<Rightarrow> (int \<times> error option) \<times> 's Writer" where
  "Write w p =
     (if length p = 0 then ((0, None), w)
      else case handler w (out w) p of
             (Some e, s') \<Rightarrow> ((0, Some e), w\<lparr>out := s'\<rparr>)
           | (None, s') \<Rightarrow> ((int (length p), None), w\<lparr>out := s'\<rparr>))"

text \<open>\<open>DefaultWriteFn\<close> forwards the bytes to the sink and keeps only the error. The
  sink is given by its own write function; \<open>buffer_write\<close> is a \<open>bytes.Buffer\<close>.\<close>

definition DefaultWriteFn :: "('s \<Rightarrow> string \<Rightarrow> (int \<times> error option) \<times> 's) \<Rightarrow> 's WriteFn" where
  "DefaultWriteFn wr s p = (case wr s p of ((n, Some e), s') \<Rightarrow> (Some e, s') | ((n, None), s') \<Rightarrow> (None, s'))"

definition buffer_write :: "string \<Rightarrow> string \<Rightarrow> (int \<times> error option) \<times> string" where
  "buffer_write s p = ((int (length p), None), s @ p)"

section \<open>Formatting (the part of Go's fmt that the logger uses)\<close>

fun digits :: "nat \<Rightarrow> string" where
  "digits n = (if n < 10 then [char_of (48 + n)] else digits (n div 10) @ [char_of (48 + n mod 10)])"

definition Itoa :: "int \<Rightarrow> string" where
  "Itoa i = (if i < 0 then CHR ''-'' # digits (nat (- i)) else digits (nat i))"

text \<open>The verb \<open>%v\<close>.\<close>

fun fmt_v :: "val \<Rightarrow> string" where
  "fmt_v VNil = ''<nil>''"
| "fmt_v (VStr s) = s"
| "fmt_v (VInt i) = Itoa i"

text \<open>The verb \<open>%s\<close>, which reports an operand that is not a string.\<close>

fun fmt_s :: "val \<Rightarrow> string" where
  "fmt_s VNil = ''%!s(<nil>)''"
| "fmt_s (VStr s) = s"
| "fmt_s (VInt i) = ''%!s(int='' @ Itoa i @ '')''"

fun typed :: "val \<Rightarrow> string" where
  "typed VNil = ''<nil>''"
| "typed (VStr s) = ''string='' @ s"
| "typed (VInt i) = ''int='' @ Itoa i"

fun join :: "string \<Rightarrow> string list \<Rightarrow> string" where
  "join sep [] = []"
| "join sep [x] = x"
| "join sep (x # y # ys) = x @ sep @ join sep (y # ys)"

definition extra :: "val list \<Rightarrow> string" where
  "extra args = (if args = [] then [] else ''%!(EXTRA '' @ join '', '' (map typed args) @ '')'')"

text \<open>
  \<open>fmt.Sprintf\<close> on the directives \<open>%v\<close>, \<open>%s\<close> and \<open>%%\<close>: operands are consumed
  from the left, a directive with no operand left prints \<open>%!v(MISSING)\<close>, operands left
  over are reported after the text, and a format ending in a lone \<open>%\<close> prints
  \<open>%!(NOVERB)\<close>. Any other character after \<open>%\<close> (flags, widths, argument indexes, the
  other verbs) is left to \<open>other\<close>, which stands for what the library prints from
  that directive on with the operands not yet consumed.
\<close>

fun Sprintf :: "(string \<Rightarrow> val list \<Rightarrow> string) \<Rightarrow> string \<Rightarrow> val list \<Rightarrow> string" where
  "Sprintf other [] args = extra args"
| "Sprintf other (c # []) args = (if c = CHR ''%'' then ''%!(NOVERB)'' @ extra args else c # extra args)"
| "Sprintf other (c # d # rest) args =
     (if c \<noteq> CHR ''%'' then c # Sprintf other (d # rest) args
      else if d = CHR ''%'' then CHR ''%'' # Sprintf other rest args
      else if d = CHR ''v'' \<or> d = CHR ''s'' then
        (case args of
           [] \<Rightarrow> (''%!'' @ [d] @ ''(MISSING)'') @ Sprintf other rest []
         | a # as \<Rightarrow> (if d = CHR ''v'' then fmt_v a else fmt_s a) @ Sprintf other rest as)
      else other (c # d # rest) args)"

text \<open>\<open>strings.Split(s, "/")\<close>: the pieces between the separators, never an empty
  list.\<close>

fun Split :: "string \<Rightarrow> string \<Rightarrow> string list" where
  "Split [] cur = [cur]"
| "Split (c # cs) cur = (if c = CHR ''/'' then cur # Split cs [] else Split cs (cur @ [c]))"

section \<open>The logger\<close>

text \<open>
  What a call reads from the world: whether \<open>runtime.Caller(2)\<close> resolved a frame and
  the name \<open>runtime.FuncForPC(pc).Name()\<close> of it, the instants the successive calls
  of \<open>time.Now()\<close> return,
  \<open>Time.Format\<close> of the standard library, the rest of \<open>fmt.Sprintf\<close>, and the error
  (or nil) of each write, by the number of writes the call made before it, the stream
  and the bytes.
\<close>

record runtime =
  caller :: "string option"
  now :: "nat \<Rightarrow> time"
  Format :: "time \<Rightarrow> string \<Rightarrow> string"
  fmt_other :: "string \<Rightarrow> val list \<Rightarrow> string"
  write_result :: "nat \<Rightarrow> stream \<Rightarrow> string \<Rightarrow> error option"

text \<open>A write is recorded with the place in \<open>Logf\<close> that made it (the diagnostic of
  the function-name lookup, or the message), its stream and its bytes. A call returns
  its error value, or ends the process in \<open>log.Fatal\<close> with the text given to it, or
  panics on a nil stream or clock.\<close>

datatype site = Diagnostic | Message

type_synonym event = "site \<times> stream \<times> string"

datatype outcome = Returned "error option" | Fatal string | Panic

definition call_clock :: "runtime \<Rightarrow> clock \<Rightarrow> nat \<Rightarrow> time" where
  "call_clock rt c k = (case c of TimeNow \<Rightarrow> now rt k | UserClock g \<Rightarrow> g k)"

definition maybePrefixTimestamp :: "runtime \<Rightarrow> logger \<Rightarrow> nat \<Rightarrow> string \<Rightarrow> string option" where
  "maybePrefixTimestamp rt l k msg =
     (if \<not> DisableTimestamps (options l) then
        (case TimestampFunc (options l) of
           None \<Rightarrow> None
         | Some c \<Rightarrow> Some (Format rt (call_clock rt c k) (TimestampFormat (options l)) @ '' '' @ msg))
      else Some msg)"

text \<open>\<open>Tags\<close> reads the map at the configured key (the type assertion succeeds on
  any map value, the nil map too); with no map there it returns a new empty one, which
  nothing else refers to.\<close>

definition Tags :: "heap \<Rightarrow> logger \<Rightarrow> context \<Rightarrow> tags" where
  "Tags h l ctx =
     (case Value ctx (TagsContextKey (options l)) of
        Some (CTags r) \<Rightarrow> entries h r
      | _ \<Rightarrow> [])"

text \<open>\<open>Tag\<close> returns nil when the context has no map or the map has no such name.\<close>

definition Tag :: "heap \<Rightarrow> logger \<Rightarrow> context \<Rightarrow> string \<Rightarrow> val" where
  "Tag h l ctx name =
     (case Value ctx (TagsContextKey (options l)) of
        Some (CTags r) \<Rightarrow> (case map_of (entries h r) name of None \<Rightarrow> VNil | Some t \<Rightarrow> t)
      | _ \<Rightarrow> VNil)"

text \<open>A heap with nothing allocated.\<close>

definition empty_heap :: heap where
  "empty_heap = \<lparr> maps = (\<lambda>_. []), fresh = 0 \<rparr>"

text \<open>The map that \<open>AddTag\<close> and \<open>RemoveTag\<close> work on: the one found in the context,
  or a newly made empty one when the context has no map value at the key.\<close>

definition tags_or_make :: "heap \<Rightarrow> logger \<Rightarrow> context \<Rightarrow> mapref \<times> heap" where
  "tags_or_make h l ctx =
     (case Value ctx (TagsContextKey (options l)) of
        Some (CTags r) \<Rightarrow> (r, h)
      | _ \<Rightarrow> (MapAt (fresh h), h\<lparr>maps := (maps h)(fresh h := []), fresh := Suc (fresh h)\<rparr>))"

text \<open>\<open>AddTag\<close> returns the map and the context, and leaves the heap changed; \<open>None\<close>
  is the panic of \<open>tags[name] = value\<close> on the nil map.\<close>

definition AddTag :: "heap \<Rightarrow> logger \<Rightarrow> context \<Rightarrow> string \<Rightarrow> val \<Rightarrow> ((mapref \<times> context) \<times> heap) option" where
  "AddTag h l ctx name v =
     (let (r, h1) = tags_or_make h l ctx in
      if name \<noteq> [] then
        (case r of
           NilMap \<Rightarrow> None
         | MapAt a \<Rightarrow>
             Some ((r, WithValue ctx (TagsContextKey (options l)) (CTags r)),
                   h1\<lparr>maps := (maps h1)(a := AList.update name v (maps h1 a))\<rparr>))
      else Some ((r, ctx), h1))"

text \<open>\<open>RemoveTag\<close> cannot panic: \<open>delete\<close> on the nil map is a no-op.\<close>

definition RemoveTag :: "heap \<Rightarrow> logger \<Rightarrow> context \<Rightarrow> string \<Rightarrow> (mapref \<times> context) \<times> heap" where
  "RemoveTag h l ctx name =
     (let (r, h1) = tags_or_make h l ctx in
      if name \<noteq> [] then
        ((r, WithValue ctx (TagsContextKey (options l)) (CTags r)),
         (case r of
            NilMap \<Rightarrow> h1
          | MapAt a \<Rightarrow> h1\<lparr>maps := (maps h1)(a := AList.delete name (maps h1 a))\<rparr>))
      else ((r, ctx), h1))"

text \<open>The loop over the tags: \<open>name:value\<close> and, while \<open>count+1 < len(tags)\<close>, the
  delimiter.\<close>

fun tag_loop :: "tags \<Rightarrow> nat \<Rightarrow> nat \<Rightarrow> string" where
  "tag_loop [] count n = []"
| "tag_loop ((name, v) # rest) count n =
     (name @ '':'' @ fmt_v v @ (if count + 1 < n then '', '' else [])) @ tag_loop rest (Suc count) n"

definition tagBytes :: "tags \<Rightarrow> string" where
  "tagBytes ts = ''['' @ tag_loop ts 0 (length ts) @ '']''"

text \<open>The loop that builds the format when none was given.\<close>

fun auto_format :: "nat \<Rightarrow> string \<Rightarrow> string" where
  "auto_format 0 f = f"
| "auto_format (Suc n) f = auto_format n (f @ '' %v'')"

text \<open>One \<open>Write\<close> on a stream of the options: a nil stream panics.\<close>

definition stream_write :: "runtime \<Rightarrow> nat \<Rightarrow> site \<Rightarrow> stream option \<Rightarrow> string \<Rightarrow> (error option \<times> event) option" where
  "stream_write rt k at so bytes =
     (case so of None \<Rightarrow> None | Some s \<Rightarrow> Some (write_result rt k s bytes, (at, s, bytes)))"

definition lookupErr :: string where
  "lookupErr = LevelNames_at LevelCritical @ '' '' @ ''loggy.logger.Logf'' @ '' '' @
     ''failed to dynamically lookup function name''"

text \<open>The coercion of the severity: \<open>severity < 0 || severity+1 > len(LevelNames)\<close>, with
  the machine addition.\<close>

definition coerce :: "Level \<Rightarrow> Level" where
  "coerce severity =
     (if severity <s 0 \<or> word_of_nat (length LevelNames) <s severity + 1 then LevelStd else severity)"

text \<open>The function-name step of \<open>Logf\<close>: \<open>Inl\<close> when the call ends there, \<open>Inr\<close>
  with the message so far and the writes made.\<close>

definition function_name :: "runtime \<Rightarrow> logger \<Rightarrow> string \<Rightarrow> (outcome \<times> event list) + (string \<times> event list)" where
  "function_name rt l msg =
     (if \<not> DisableFunctionName (options l) then
        (case caller rt of
           None \<Rightarrow>
             (case maybePrefixTimestamp rt l 0 lookupErr of
                None \<Rightarrow> Inl (Panic, [])
              | Some line \<Rightarrow>
                  (case stream_write rt 0 Diagnostic (Err (options l)) line of
                     None \<Rightarrow> Inl (Panic, [])
                   | Some (Some e, ev) \<Rightarrow>
                       if LogFatal (options l) then Inl (Fatal lookupErr, [ev])
                       else Inl (Returned (Some e), [ev])
                   | Some (None, ev) \<Rightarrow> Inr (msg, [ev])))
         | Some name \<Rightarrow> Inr (msg @ '' '' @ last (Split name []), []))
      else Inr (msg, []))"

definition with_tags :: "heap \<Rightarrow> logger \<Rightarrow> context \<Rightarrow> string \<Rightarrow> string" where
  "with_tags h l ctx msg =
     (if \<not> DisableTags (options l) then
        (let ts = Tags h l ctx in
         if length ts > 0 then msg @ '' '' @ tagBytes ts else msg)
      else msg)"

definition with_prefix :: "logger \<Rightarrow> string \<Rightarrow> string" where
  "with_prefix l msg = (if Prefix (options l) \<noteq> [] then msg @ '' '' @ Prefix (options l) else msg)"

text \<open>The stream a severity is routed to, by the last branch of \<open>Logf\<close>.\<close>

definition stream_for :: "logger \<Rightarrow> Level \<Rightarrow> stream option" where
  "stream_for l severity =
     (if severity = LevelStd \<or> LevelInfo \<le>s severity then Out (options l) else Err (options l))"

text \<open>The last step: the user's part, the choice of the stream and the write.\<close>

definition chosen_format :: "string \<Rightarrow> val list \<Rightarrow> string" where
  "chosen_format format message =
     (if format = [] \<and> length message > 0 then auto_format (length message) format else format)"

definition rendered :: "runtime \<Rightarrow> string \<Rightarrow> val list \<Rightarrow> string \<Rightarrow> string" where
  "rendered rt format message msg =
     Sprintf (fmt_other rt) (''%s'' @ chosen_format format message @ [CHR 0x0A]) (VStr msg # message)"

definition emit :: "runtime \<Rightarrow> logger \<Rightarrow> Level \<Rightarrow> string \<Rightarrow> val list \<Rightarrow> string \<Rightarrow> event list \<Rightarrow> outcome \<times> event list" where
  "emit rt l severity format message msg evs =
     (let msg' = rendered rt format message msg
      in case maybePrefixTimestamp rt l (length evs) msg' of
           None \<Rightarrow> (Panic, evs)
         | Some line \<Rightarrow>
             (case stream_write rt (length evs) Message (stream_for l severity) line of
                None \<Rightarrow> (Panic, evs)
              | Some (Some e, ev) \<Rightarrow>
                  if LogFatal (options l) then (Fatal msg', evs @ [ev])
                  else (Returned (Some e), evs @ [ev])
              | Some (None, ev) \<Rightarrow> (Returned None, evs @ [ev])))"

definition Logf :: "runtime \<Rightarrow> heap \<Rightarrow> logger \<Rightarrow> context \<Rightarrow> Level \<Rightarrow> string \<Rightarrow> val list \<Rightarrow> outcome \<times> event list" where
  "Logf rt h l ctx severity0 format message =
     (if Threshold (options l) <s 0 then (Returned None, [])
      else
        let severity = coerce severity0 in
        if severity \<noteq> LevelStd \<and> Threshold (options l) <s severity then (Returned None, [])
        else
          (case function_name rt l (LevelNames_at severity) of
             Inl r \<Rightarrow> r
           | Inr (msg, evs) \<Rightarrow>
               emit rt l severity format message (with_prefix l (with_tags h l ctx msg)) evs))"

definition Log :: "runtime \<Rightarrow> heap \<Rightarrow> logger \<Rightarrow> context \<Rightarrow> Level \<Rightarrow> val list \<Rightarrow> outcome \<times> event list" where
  "Log rt h l ctx severity message = Logf rt h l ctx severity [] message"

definition Std :: "runtime \<Rightarrow> heap \<Rightarrow> logger \<Rightarrow> context \<Rightarrow> val list \<Rightarrow> outcome \<times> event list" where
  "Std rt h l ctx message = Logf rt h l ctx LevelStd [] message"

definition Stdf :: "runtime \<Rightarrow> heap \<Rightarrow> logger \<Rightarrow> context \<Rightarrow> string \<Rightarrow> val list \<Rightarrow> outcome \<times> event list" where
  "Stdf rt h l ctx format message = Logf rt h l ctx LevelStd format message"

definition Critical :: "runtime \<Rightarrow> heap \<Rightarrow> logger \<Rightarrow> context \<Rightarrow> val list \<Rightarrow> outcome \<times> event list" where
  "Critical rt h l ctx message = Logf rt h l ctx LevelCritical [] message"

definition Criticalf :: "runtime \<Rightarrow> heap \<Rightarrow> logger \<Rightarrow> context \<Rightarrow> string \<Rightarrow> val list \<Rightarrow> outcome \<times> event list" where
  "Criticalf rt h l ctx format message = Logf rt h l ctx LevelCritical format message"

definition Warning :: "runtime \<Rightarrow> heap \<Rightarrow> logger \<Rightarrow> context \<Rightarrow> val list \<Rightarrow> outcome \<times> event list" where
  "Warning rt h l ctx message = Logf rt h l ctx LevelWarning [] message"

definition Warningf :: "runtime \<Rightarrow> heap \<Rightarrow> logger \<Rightarrow> context \<Rightarrow> string \<Rightarrow> val list \<Rightarrow> outcome \<times> event list" where
  "Warningf rt h l ctx format message = Logf rt h l ctx LevelWarning format message"

definition Info :: "runtime \<Rightarrow> heap \<Rightarrow> logger \<Rightarrow> context \<Rightarrow> val list \<Rightarrow> outcome \<times> event list" where
  "Info rt h l ctx message = Logf rt h l ctx LevelInfo [] message"

definition Infof :: "runtime \<Rightarrow> heap \<Rightarrow> logger \<Rightarrow> context \<Rightarrow> string \<Rightarrow> val list \<Rightarrow> outcome \<times> event list" where
  "Infof rt h l ctx format message = Logf rt h l ctx LevelInfo format message"

definition Debug :: "runtime \<Rightarrow> heap \<Rightarrow> logger \<Rightarrow> context \<Rightarrow> val list \<Rightarrow> outcome \<times> event list" where
  "Debug rt h l ctx message = Logf rt h l ctx LevelDebug [] message"

definition Debugf :: "runtime \<Rightarrow> heap \<Rightarrow> logger \<Rightarrow> context \<Rightarrow> string \<Rightarrow> val list \<Rightarrow> outcome \<times> event list" where
  "Debugf rt h l ctx format message = Logf rt h l ctx LevelDebug format message"

text \<open>The per-severity operations of the interface, with the severity each one passes
  to \<open>Logf\<close>.\<close>

definition wrappers :: "(Level \<times> (runtime \<Rightarrow> heap \<Rightarrow> logger \<Rightarrow> context \<Rightarrow> val list \<Rightarrow> outcome \<times> event list)) list" where
  "wrappers = [(LevelStd, Std), (LevelCritical, Critical), (LevelWarning, Warning),
     (LevelInfo, Info), (LevelDebug, Debug)]"

definition wrappersf :: "(Level \<times> (runtime \<Rightarrow> heap \<Rightarrow> logger \<Rightarrow> context \<Rightarrow> string \<Rightarrow> val list \<Rightarrow> outcome \<times> event list)) list" where
  "wrappersf = [(LevelStd, Stdf), (LevelCritical, Criticalf), (LevelWarning, Warningf),
     (LevelInfo, Infof), (LevelDebug, Debugf)]"

text \<open>What \<open>maybePrefixTimestamp\<close> puts in front of a message when it is the call's
  \<open>k\<close>-th use of the clock: nothing when timestamps are disabled.\<close>

definition timestamp_part :: "runtime \<Rightarrow> logger \<Rightarrow> nat \<Rightarrow> string" where
  "timestamp_part rt l k = (case maybePrefixTimestamp rt l k [] of None \<Rightarrow> [] | Some t \<Rightarrow> t)"

text \<open>The writes of a call made at one place, and a logger on which no stream and no
  clock is nil, as \<open>New\<close> leaves it.\<close>

definition writes_at :: "site \<Rightarrow> outcome \<times> event list \<Rightarrow> (stream \<times> string) list" where
  "writes_at at r = map snd (filter (\<lambda>e. fst e = at) (snd r))"

definition usable :: "logger \<Rightarrow> bool" where
  "usable l \<longleftrightarrow> Out (options l) \<noteq> None \<and> Err (options l) \<noteq> None \<and> TimestampFunc (options l) \<noteq> None"

section \<open>Notions used to state the properties of \<open>Logf\<close>\<close>

text \<open>A message passes the filter when neither of the two early returns of \<open>Logf\<close> is
  taken; the function-name lookup fails when it is enabled and \<open>runtime.Caller\<close>
  resolves no frame.\<close>

definition accepted :: "logger \<Rightarrow> Level \<Rightarrow> bool" where
  "accepted l severity \<longleftrightarrow>
     \<not> Threshold (options l) <s 0 \<and>
     \<not> (coerce severity \<noteq> LevelStd \<and> Threshold (options l) <s coerce severity)"

definition lookup_fails :: "runtime \<Rightarrow> logger \<Rightarrow> bool" where
  "lookup_fails rt l \<longleftrightarrow> \<not> DisableFunctionName (options l) \<and> caller rt = None"

text \<open>The text in front of the user's part (label, function name, tags, prefix), the
  message as \<open>Sprintf\<close> returns it, and the two lines as they are written: the
  diagnostic takes the first instant of the clock, and the message the second one
  when the diagnostic came before it.\<close>

definition heading :: "runtime \<Rightarrow> heap \<Rightarrow> logger \<Rightarrow> context \<Rightarrow> Level \<Rightarrow> string" where
  "heading rt h l ctx severity =
     with_prefix l (with_tags h l ctx
       (LevelNames_at (coerce severity) @
        (if DisableFunctionName (options l) then []
         else case caller rt of None \<Rightarrow> [] | Some name \<Rightarrow> '' '' @ last (Split name []))))"

definition message_body :: "runtime \<Rightarrow> heap \<Rightarrow> logger \<Rightarrow> context \<Rightarrow> Level \<Rightarrow> string \<Rightarrow> val list \<Rightarrow> string" where
  "message_body rt h l ctx severity format message = rendered rt format message (heading rt h l ctx severity)"

definition message_line :: "runtime \<Rightarrow> heap \<Rightarrow> logger \<Rightarrow> context \<Rightarrow> Level \<Rightarrow> string \<Rightarrow> val list \<Rightarrow> string" where
  "message_line rt h l ctx severity format message =
     timestamp_part rt l (if lookup_fails rt l then 1 else 0) @
     message_body rt h l ctx severity format message"

definition diagnostic_line :: "runtime \<Rightarrow> logger \<Rightarrow> string" where
  "diagnostic_line rt l = timestamp_part rt l 0 @ lookupErr"

text \<open>What a call does after a write that returned \<open>res\<close>: nil, the error, or
  \<open>log.Fatal\<close> with the text \<open>body\<close>.\<close>

definition after_write :: "logger \<Rightarrow> error option \<Rightarrow> string \<Rightarrow> outcome" where
  "after_write l res body =
     (case res of
        None \<Rightarrow> Returned None
      | Some e \<Rightarrow> if LogFatal (options l) then Fatal body else Returned (Some e))"

section \<open>Concrete inputs\<close>

text \<open>The logger that \<open>New\<close> makes from the zero options, a heap holding one tag map
  with two entries, and a context referring to that map under the default key.\<close>

definition default_logger :: logger where
  "default_logger = fst (New [] zero_options)"

definition tagged_heap :: heap where
  "tagged_heap = \<lparr> maps = (\<lambda>_. [])(0 := [(''waffles'', VInt 1), (''bacon'', VInt 2)]), fresh = 1 \<rparr>"

definition tagged_ctx :: "context" where
  "tagged_ctx = [(''loggy.Tags'', CTags (MapAt 0)), (''loggy.Logger'', CLogger)]"

text \<open>A context in which other code has stored a nil \<open>map[string]interface{}\<close> under
  the default key.\<close>

definition nil_map_ctx :: "context" where
  "nil_map_ctx = [(''loggy.Tags'', CTags NilMap)]"

text \<open>A logger with the threshold Info; a world where the caller is \<open>main.main\<close>, the
  clock prints as \<open>T\<close> and every write succeeds; the same world with no caller frame;
  and that world with every write failing.\<close>

definition info_logger :: logger where
  "info_logger = fst (New [] (zero_options\<lparr>Threshold := LevelInfo\<rparr>))"

definition plain_rt :: runtime where
  "plain_rt = \<lparr> caller = Some ''example.com/app/main.main'', now = (\<lambda>k. k), Format = (\<lambda>t f. ''T''),
     fmt_other = (\<lambda>f args. []), write_result = (\<lambda>k s b. None) \<rparr>"

definition no_frame_rt :: runtime where
  "no_frame_rt = plain_rt\<lparr>caller := None\<rparr>"

definition broken_rt :: runtime where
  "broken_rt = no_frame_rt\<lparr>write_result := (\<lambda>k s b. Some (IOError ''closed pipe''))\<rparr>"


definition quiet_logger :: logger where
  "quiet_logger = fst (New [] (zero_options\<lparr>Threshold := - 1\<rparr>))"

definition MaxInt :: Level where
  "MaxInt = 0x7FFFFFFFFFFFFFFF"

section \<open>Construction\<close>

text \<open>
  C3, as stated: a field left unset is filled from the defaults, the threshold among
  them. It fails for the threshold: \<open>New\<close> on the zero value of \<open>Options\<close> keeps the
  threshold 0, which is \<open>LevelStd\<close>, not the default \<open>LevelInfo\<close>.
\<close>

theorem New_threshold_counterexample:
  "Threshold (options (fst (New [] zero_options))) \<noteq> Threshold DefaultOptions"
  by (simp add: New_def zero_options_def DefaultOptions_def LevelInfo_def Let_def)

text \<open>
  C3, amended: \<open>New\<close> replaces a nil \<open>Out\<close> by the process's standard output, a nil
  \<open>Err\<close> by its standard error, an empty \<open>TimestampFormat\<close> by RFC3339, a nil
  \<open>TimestampFunc\<close> by the real-time clock and an empty \<open>TagsContextKey\<close> by the
  default tags key; a field that was set keeps its value, and the threshold, the prefix
  and the four flags are kept as given.
\<close>

theorem New_fills_unset:
  "options (fst (New ctx opts)) =
     opts\<lparr> Out := (if Out opts = None then Some OsStdout else Out opts),
           Err := (if Err opts = None then Some OsStderr else Err opts),
           TimestampFormat := (if TimestampFormat opts = [] then RFC3339 else TimestampFormat opts),
           TimestampFunc := (if TimestampFunc opts = None then Some TimeNow else TimestampFunc opts),
           TagsContextKey := (if TagsContextKey opts = [] then ContextKeyTags else TagsContextKey opts) \<rparr>"
  by (simp add: New_def DefaultOptions_def Let_def)

theorem New_fills_unset_witness:
  "options (fst (New [] zero_options)) =
     \<lparr> Out = Some OsStdout, Err = Some OsStderr, Threshold = LevelStd, Prefix = [], DisableTimestamps = False,
       TimestampFormat = RFC3339, TimestampFunc = Some TimeNow, LogFatal = False,
       DisableFunctionName = False, DisableTags = False, TagsContextKey = ContextKeyTags \<rparr>"
  using New_fills_unset [of "[]" zero_options] by (simp add: zero_options_def LevelStd_def)

section \<open>The Writer\<close>

text \<open>
  C10: \<open>Writer.Write\<close> on an empty slice returns \<open>(0, nil)\<close> and leaves the sink as
  it was, whatever the handler is; on a non-empty slice it returns \<open>(0, err)\<close> when
  the handler returns \<open>err\<close> and \<open>(len(p), nil)\<close> when the handler returns nil. The
  count is 0 or the whole length, whatever the handler did to the sink.
\<close>

theorem Write_count:
  "(p = [] \<longrightarrow> Write w p = ((0, None), w)) \<and>
   (p \<noteq> [] \<longrightarrow> (\<forall>e s'. handler w (out w) p = (Some e, s') \<longrightarrow> Write w p = ((0, Some e), w\<lparr>out := s'\<rparr>))) \<and>
   (p \<noteq> [] \<longrightarrow> (\<forall>s'. handler w (out w) p = (None, s') \<longrightarrow> Write w p = ((int (length p), None), w\<lparr>out := s'\<rparr>))) \<and>
   (fst (fst (Write w p)) = 0 \<or> fst (fst (Write w p)) = int (length p))"
  by (auto simp: Write_def split: prod.splits option.splits)

theorem Write_count_witness:
  "Write (NewWriter ([]::string) (DefaultWriteFn buffer_write)) [] = ((0, None), NewWriter ([]::string) (DefaultWriteFn buffer_write)) \<and>
   fst (Write (NewWriter ([]::string) (\<lambda>s p. (Some (IOError ''closed''), s))) ''abc'') = (0, Some (IOError ''closed'')) \<and>
   fst (Write (NewWriter ([]::string) (\<lambda>s p. (None, s @ take 1 p))) ''abc'') = (3, None) \<and>
   out (snd (Write (NewWriter ([]::string) (\<lambda>s p. (None, s @ take 1 p))) ''abc'')) = ''a''"
  using Write_count [of "[]" "NewWriter ([]::string) (DefaultWriteFn buffer_write)"]
        Write_count [of "''abc''" "NewWriter ([]::string) (\<lambda>s p. (Some (IOError ''closed''), s))"]
        Write_count [of "''abc''" "NewWriter ([]::string) (\<lambda>s p. (None, s @ take 1 p))"]
  by (simp add: NewWriter_def)

section \<open>The tag store\<close>

lemma filter_key_distinct:
  "distinct (map fst xs) \<Longrightarrow> map_of xs k = Some v \<Longrightarrow> length (filter (\<lambda>e. fst e = k) xs) = 1"
proof (induction xs)
  case Nil
  then show ?case by simp
next
  case (Cons x xs)
  show ?case
  proof (cases "fst x = k")
    case True
    with Cons.prems have "k \<notin> fst ` set xs" by auto
    then have "filter (\<lambda>e. fst e = k) xs = []" by (auto simp: filter_empty_conv)
    with True show ?thesis by simp
  next
    case False
    with Cons show ?thesis by (cases x) auto
  qed
qed

lemma Value_WithValue: "Value (WithValue ctx k v) k = Some v"
  by (simp add: Value_def WithValue_def)

lemma tags_or_make_entries:
  "tags_or_make h l ctx = (r, h1) \<Longrightarrow> entries h1 r = Tags h l ctx"
  by (auto simp: tags_or_make_def Tags_def entries_def split: option.splits cval.splits)

lemma tags_or_make_not_nil:
  "Value ctx (TagsContextKey (options l)) \<noteq> Some (CTags NilMap) \<Longrightarrow>
   tags_or_make h l ctx = (r, h1) \<Longrightarrow> \<exists>a. r = MapAt a"
  by (cases r) (auto simp: tags_or_make_def split: option.splits cval.splits)

lemma default_logger_key: "TagsContextKey (options default_logger) = ''loggy.Tags''"
  by (simp add: default_logger_def New_def zero_options_def DefaultOptions_def ContextKeyTags_def Let_def)

text \<open>
  On a context that does not hold the nil map at the tags key, and for a non-empty
  name: \<open>AddTag\<close> followed by \<open>Tag\<close> on the returned context gives the value added,
  the map read through the returned context has exactly one entry with that name and
  every other name reads as before; \<open>RemoveTag\<close> followed by \<open>Tag\<close> gives nil, no
  entry with the name is left and every other name reads as before.
\<close>

lemma tag_roundtrip:
  assumes "name \<noteq> []" and "distinct (map fst (Tags h l ctx))"
    and "Value ctx (TagsContextKey (options l)) \<noteq> Some (CTags NilMap)"
  shows "(case AddTag h l ctx name v of
            None \<Rightarrow> False
          | Some ((r, ctx'), h') \<Rightarrow>
            Tag h' l ctx' name = v \<and>
            Tags h' l ctx' = entries h' r \<and>
            distinct (map fst (Tags h' l ctx')) \<and>
            length (filter (\<lambda>e. fst e = name) (Tags h' l ctx')) = 1 \<and>
            map_of (Tags h' l ctx') name = Some v \<and>
            (\<forall>k. k \<noteq> name \<longrightarrow> map_of (Tags h' l ctx') k = map_of (Tags h l ctx) k)) \<and>
         (case RemoveTag h l ctx name of ((r, ctx'), h') \<Rightarrow>
            Tag h' l ctx' name = VNil \<and>
            Tags h' l ctx' = entries h' r \<and>
            filter (\<lambda>e. fst e = name) (Tags h' l ctx') = [] \<and>
            (\<forall>k. k \<noteq> name \<longrightarrow> map_of (Tags h' l ctx') k = map_of (Tags h l ctx) k))"
proof -
  obtain r h1 where t: "tags_or_make h l ctx = (r, h1)" by (cases "tags_or_make h l ctx")
  then have m: "entries h1 r = Tags h l ctx" by (rule tags_or_make_entries)
  from assms(3) t obtain a where r: "r = MapAt a" using tags_or_make_not_nil by blast
  from m r have ma: "maps h1 a = Tags h l ctx" by (simp add: entries_def)
  let ?new = "AList.update name v (Tags h l ctx)"
  have d: "distinct (map fst ?new)" using assms(2) by (simp add: distinct_update)
  have g: "map_of ?new name = Some v" by (simp add: update_conv')
  have f: "length (filter (\<lambda>e. fst e = name) ?new) = 1"
    using d g by (rule filter_key_distinct)
  have fr: "\<forall>k. k \<noteq> name \<longrightarrow> map_of ?new k = map_of (Tags h l ctx) k"
    by (simp add: update_conv')
  have add: "AddTag h l ctx name v =
      Some ((r, WithValue ctx (TagsContextKey (options l)) (CTags r)), h1\<lparr>maps := (maps h1)(a := ?new)\<rparr>)"
    using assms(1) t ma r by (simp add: AddTag_def)
  let ?del = "AList.delete name (Tags h l ctx)"
  have rem: "RemoveTag h l ctx name =
      ((r, WithValue ctx (TagsContextKey (options l)) (CTags r)), h1\<lparr>maps := (maps h1)(a := ?del)\<rparr>)"
    using assms(1) t ma r by (simp add: RemoveTag_def)
  have nd: "map_of ?del name = None" by (simp add: delete_conv')
  have fd: "filter (\<lambda>e. fst e = name) ?del = []"
    using delete_notin_dom [of name "Tags h l ctx"] by (auto simp: filter_empty_conv)
  have frd: "\<forall>k. k \<noteq> name \<longrightarrow> map_of ?del k = map_of (Tags h l ctx) k"
    by (simp add: delete_conv')
  show ?thesis
    using d g f nd fd fr frd r by (simp add: add rem Tag_def Tags_def Value_WithValue entries_def)
qed

lemma tag_roundtrip_instance:
  "(case AddTag tagged_heap default_logger tagged_ctx ''waffles'' (VInt 3) of
      None \<Rightarrow> False
    | Some ((r, ctx'), h') \<Rightarrow>
      Tag h' default_logger ctx' ''waffles'' = VInt 3 \<and>
      Tag h' default_logger ctx' ''bacon'' = VInt 2 \<and>
      length (Tags h' default_logger ctx') = 2) \<and>
   (case RemoveTag tagged_heap default_logger tagged_ctx ''waffles'' of ((r, ctx'), h') \<Rightarrow>
      Tag h' default_logger ctx' ''waffles'' = VNil \<and>
      Tag h' default_logger ctx' ''bacon'' = VInt 2 \<and>
      length (Tags h' default_logger ctx') = 1)"
  by (simp add: AddTag_def RemoveTag_def tags_or_make_def Tags_def Tag_def Value_def WithValue_def
      entries_def default_logger_key tagged_heap_def tagged_ctx_def)

text \<open>The scenario of \<open>TestLogger_Tags\<close>: waffles, bacon, waffles again.\<close>

lemma tags_test_scenario:
  "(case AddTag empty_heap default_logger [] ''waffles'' (VInt 1) of None \<Rightarrow> False | Some ((a1, c1), h1) \<Rightarrow>
     case AddTag h1 default_logger c1 ''bacon'' (VInt 2) of None \<Rightarrow> False | Some ((a2, c2), h2) \<Rightarrow>
     case AddTag h2 default_logger c2 ''waffles'' (VInt 3) of None \<Rightarrow> False | Some ((a3, c3), h3) \<Rightarrow>
       length (Tags h3 default_logger c3) = 2 \<and>
       Tag h3 default_logger c3 ''bacon'' = VInt 2 \<and>
       Tag h3 default_logger c3 ''waffles'' = VInt 3)"
  by (simp add: AddTag_def tags_or_make_def Tags_def Tag_def Value_def WithValue_def
      entries_def default_logger_key empty_heap_def)

text \<open>
  C7, at the input where the code leaves it: a context in which a nil
  \<open>map[string]interface{}\<close> is stored under the tags key. The type assertion in
  \<open>AddTag\<close> succeeds, \<open>make\<close> is skipped, and \<open>tags[name] = value\<close> panics, so there
  is no returned context to read the tag from. \<open>Tags\<close>, \<open>Tag\<close> and \<open>RemoveTag\<close> do
  not panic on the same context.
\<close>

theorem AddTag_nil_map_panics:
  "AddTag empty_heap default_logger nil_map_ctx ''waffles'' (VInt 3) = None \<and>
   Tags empty_heap default_logger nil_map_ctx = [] \<and>
   Tag empty_heap default_logger nil_map_ctx ''waffles'' = VNil \<and>
   RemoveTag empty_heap default_logger nil_map_ctx ''waffles'' =
     ((NilMap, WithValue nil_map_ctx ''loggy.Tags'' (CTags NilMap)), empty_heap)"
  by (simp add: AddTag_def RemoveTag_def tags_or_make_def Tags_def Tag_def Value_def
      entries_def default_logger_key nil_map_ctx_def)

text \<open>
  C8: with the empty name, \<open>AddTag\<close> does not panic, and \<open>AddTag\<close> and \<open>RemoveTag\<close>
  return the context they were given, the mapping they return has the entries that
  \<open>Tags\<close> found before, \<open>Tags\<close> on the context finds the same entries afterwards, and
  no map allocated before the call is changed.
\<close>

theorem empty_name_noop:
  "(case AddTag h l ctx [] v of
      None \<Rightarrow> False
    | Some ((r, ctx'), h') \<Rightarrow>
      ctx' = ctx \<and> entries h' r = Tags h l ctx \<and> Tags h' l ctx = Tags h l ctx \<and>
      (\<forall>b. b < fresh h \<longrightarrow> maps h' b = maps h b)) \<and>
   (case RemoveTag h l ctx [] of ((r, ctx'), h') \<Rightarrow>
      ctx' = ctx \<and> entries h' r = Tags h l ctx \<and> Tags h' l ctx = Tags h l ctx \<and>
      (\<forall>b. b < fresh h \<longrightarrow> maps h' b = maps h b))"
  by (auto simp: AddTag_def RemoveTag_def tags_or_make_def Tags_def entries_def
      split: option.splits cval.splits)

theorem empty_name_noop_witness:
  "(0::nat) < fresh tagged_heap \<and>
   (case AddTag tagged_heap default_logger tagged_ctx [] (VInt 7) of
      None \<Rightarrow> False
    | Some ((r, ctx'), h') \<Rightarrow> ctx' = tagged_ctx \<and> maps h' 0 = maps tagged_heap 0) \<and>
   (case RemoveTag tagged_heap default_logger tagged_ctx [] of ((r, ctx'), h') \<Rightarrow>
      ctx' = tagged_ctx \<and> maps h' 0 = maps tagged_heap 0)"
proof -
  have f: "(0::nat) < fresh tagged_heap" by (simp add: tagged_heap_def)
  show ?thesis
    using empty_name_noop [where h = tagged_heap and l = default_logger and ctx = tagged_ctx and v = "VInt 7"] f
    by (auto split: prod.splits option.splits)
qed

section \<open>Filtering, routing and writing\<close>

lemma declared_cases:
  "declared s \<longleftrightarrow> s = 0 \<or> s = 1 \<or> s = 2 \<or> s = 3 \<or> s = 4 \<or> s = 5"
  by (auto simp: declared_def LevelStd_def LevelCritical_def LevelError_def LevelWarning_def LevelInfo_def LevelDebug_def)

lemma coerce_declared: "declared s \<Longrightarrow> coerce s = s"
  by (auto simp: declared_cases coerce_def LevelNames_def word_sless_alt)

lemma LevelNames_distinct: "distinct (map fst LevelNames)"
  by (simp add: LevelNames_def LevelStd_def LevelCritical_def LevelError_def LevelWarning_def
      LevelInfo_def LevelDebug_def)

lemma coerce_max: "coerce 0x7FFFFFFFFFFFFFFF = 0x7FFFFFFFFFFFFFFF"
  by (simp add: coerce_def LevelNames_def word_sless_alt)

lemma label_declared: "declared s \<Longrightarrow> map_of LevelNames s \<noteq> None"
  by (auto simp: declared_cases LevelNames_def LevelStd_def LevelCritical_def LevelError_def LevelWarning_def LevelInfo_def LevelDebug_def)

lemma sint_eq_word: "sint (s :: 64 word) = k \<Longrightarrow> s = word_of_int k"
  by auto

lemma sint_succ:
  fixes s :: "64 word"
  assumes "s \<noteq> 0x7FFFFFFFFFFFFFFF"
  shows "sint (s + 1) = sint s + 1"
proof -
  have lo: "- (2 ^ 63) \<le> sint s" using sint_ge [of s] by simp
  have hi: "sint s < 2 ^ 63" using sint_lt [of s] by simp
  have ne: "sint s \<noteq> 2 ^ 63 - 1"
  proof
    assume "sint s = 2 ^ 63 - 1"
    then have "word_of_int (sint s) = (word_of_int (2 ^ 63 - 1) :: 64 word)" by simp
    then have "s = 0x7FFFFFFFFFFFFFFF" by simp
    with assms show False by simp
  qed
  have "sint (s + 1) = signed_take_bit 63 (sint s + 1)"
    by (simp add: sint_word_ariths)
  also have "\<dots> = sint s + 1"
    using lo hi ne by (intro signed_take_bit_int_eq_self) auto
  finally show ?thesis .
qed

text \<open>Every severity but the largest \<open>int\<close> is coerced into the declared set, and
  every declared severity has a label.\<close>

lemma coerce_range: "declared (coerce s) \<or> s = 0x7FFFFFFFFFFFFFFF"
proof (cases "s = 0x7FFFFFFFFFFFFFFF")
  case True
  then show ?thesis by simp
next
  case False
  show ?thesis
  proof (cases "s <s 0 \<or> 6 <s s + 1")
    case True
    then have "coerce s = LevelStd" by (simp add: coerce_def LevelNames_def)
    then show ?thesis by (simp add: declared_def)
  next
    case inr: False
    then have c: "coerce s = s" by (simp add: coerce_def LevelNames_def)
    from inr have "0 \<le> sint s" "sint (s + 1) \<le> 6" by (auto simp: word_sless_alt)
    with sint_succ [OF False] have r: "0 \<le> sint s" "sint s \<le> 5" by auto
    then have "sint s = 0 \<or> sint s = 1 \<or> sint s = 2 \<or> sint s = 3 \<or> sint s = 4 \<or> sint s = 5" by auto
    then have "declared s"
      using sint_eq_word [of s 0] sint_eq_word [of s 1] sint_eq_word [of s 2]
        sint_eq_word [of s 3] sint_eq_word [of s 4] sint_eq_word [of s 5]
      by (auto simp: declared_cases)
    with c show ?thesis by simp
  qed
qed


lemma usable_ts: "usable l \<Longrightarrow> maybePrefixTimestamp rt l k msg = Some (timestamp_part rt l k @ msg)"
  by (auto simp: usable_def maybePrefixTimestamp_def timestamp_part_def)

lemma Logf_filtered:
  "Threshold (options l) <s 0 \<or> (coerce S \<noteq> LevelStd \<and> Threshold (options l) <s coerce S) \<Longrightarrow>
   Logf rt h l ctx S f m = (Returned None, [])"
  by (auto simp: Logf_def Let_def)

lemma emit_usable:
  assumes "usable l" and "stream_for l S = Some st"
  shows "emit rt l S f m msg evs =
       ((case write_result rt (length evs) st (timestamp_part rt l (length evs) @ rendered rt f m msg) of
           None \<Rightarrow> Returned None
         | Some e \<Rightarrow> if LogFatal (options l) then Fatal (rendered rt f m msg) else Returned (Some e)),
        evs @ [(Message, st, timestamp_part rt l (length evs) @ rendered rt f m msg)])"
  using assms(2) by (simp add: emit_def usable_ts [OF assms(1)] stream_write_def Let_def split: option.splits)

lemma function_name_usable:
  assumes "usable l" and "Err (options l) = Some se"
  shows "function_name rt l msg =
       (if DisableFunctionName (options l) then Inr (msg, [])
        else case caller rt of
          Some name \<Rightarrow> Inr (msg @ '' '' @ last (Split name []), [])
        | None \<Rightarrow>
           (case write_result rt 0 se (timestamp_part rt l 0 @ lookupErr) of
              None \<Rightarrow> Inr (msg, [(Diagnostic, se, timestamp_part rt l 0 @ lookupErr)])
            | Some e \<Rightarrow> Inl (if LogFatal (options l) then Fatal lookupErr else Returned (Some e),
                             [(Diagnostic, se, timestamp_part rt l 0 @ lookupErr)])))"
  using assms(2) by (simp add: function_name_def usable_ts [OF assms(1)] stream_write_def split: option.splits)


text \<open>What \<open>Logf\<close> does with a message that passes the filter, on a usable logger.\<close>

lemma Logf_accepted:
  assumes u: "usable l"
    and se: "Err (options l) = Some se" and st: "stream_for l (coerce S) = Some st"
    and acc: "\<not> Threshold (options l) <s 0"
      "\<not> (coerce S \<noteq> LevelStd \<and> Threshold (options l) <s coerce S)"
  shows "Logf rt h l ctx S f m =
       (if DisableFunctionName (options l) then
          emit rt l (coerce S) f m (with_prefix l (with_tags h l ctx (LevelNames_at (coerce S)))) []
        else case caller rt of
          Some name \<Rightarrow>
            emit rt l (coerce S) f m
              (with_prefix l (with_tags h l ctx (LevelNames_at (coerce S) @ '' '' @ last (Split name [])))) []
        | None \<Rightarrow>
           (case write_result rt 0 se (timestamp_part rt l 0 @ lookupErr) of
              None \<Rightarrow>
                emit rt l (coerce S) f m (with_prefix l (with_tags h l ctx (LevelNames_at (coerce S))))
                  [(Diagnostic, se, timestamp_part rt l 0 @ lookupErr)]
            | Some e \<Rightarrow> (if LogFatal (options l) then Fatal lookupErr else Returned (Some e),
                          [(Diagnostic, se, timestamp_part rt l 0 @ lookupErr)])))"
proof -
  from acc(2) have k: "(coerce S \<noteq> LevelStd \<and> Threshold (options l) <s coerce S) = False" by simp
  show ?thesis
    using acc(1) by (simp add: Logf_def Let_def k function_name_usable [OF u se] split: option.splits)
qed


text \<open>\<open>Logf\<close> on a logger as \<open>New\<close> leaves it, case by case.\<close>

lemma Logf_explicit:
  assumes u: "usable l"
    and se: "Err (options l) = Some se" and st: "stream_for l (coerce S) = Some st"
  shows "Logf rt h l ctx S f m =
     (if \<not> accepted l S then (Returned None, [])
      else if lookup_fails rt l then
        (case write_result rt 0 se (diagnostic_line rt l) of
           Some e \<Rightarrow> (after_write l (Some e) lookupErr, [(Diagnostic, se, diagnostic_line rt l)])
         | None \<Rightarrow>
             (after_write l (write_result rt 1 st (message_line rt h l ctx S f m)) (message_body rt h l ctx S f m),
              [(Diagnostic, se, diagnostic_line rt l), (Message, st, message_line rt h l ctx S f m)]))
      else
        (after_write l (write_result rt 0 st (message_line rt h l ctx S f m)) (message_body rt h l ctx S f m),
         [(Message, st, message_line rt h l ctx S f m)]))"
proof (cases "accepted l S")
  case False
  then have "Threshold (options l) <s 0 \<or> (coerce S \<noteq> LevelStd \<and> Threshold (options l) <s coerce S)"
    by (auto simp: accepted_def)
  then have "Logf rt h l ctx S f m = (Returned None, [])" by (rule Logf_filtered)
  with False show ?thesis by simp
next
  case True
  then have acc: "\<not> Threshold (options l) <s 0"
    "\<not> (coerce S \<noteq> LevelStd \<and> Threshold (options l) <s coerce S)"
    by (auto simp: accepted_def)
  show ?thesis
    using True
    by (simp add: Logf_accepted [OF u se st acc] emit_usable [OF u st] lookup_fails_def
        heading_def message_body_def message_line_def diagnostic_line_def after_write_def
        split: option.splits)
qed


lemma not_sless: "(\<not> a <s b) = (b \<le>s a)" for a b :: "64 word"
  by (auto simp: word_sless_alt word_sle_eq)

lemma accepted_declared:
  "declared S \<Longrightarrow>
   accepted l S \<longleftrightarrow> 0 \<le>s Threshold (options l) \<and> (S = LevelStd \<or> S \<le>s Threshold (options l))"
  by (auto simp: accepted_def coerce_declared not_sless)

lemma wrappers_Logf:
  "(\<forall>(S', w) \<in> set wrappers. declared S' \<and> (\<forall>m'. w rt h l ctx m' = Logf rt h l ctx S' [] m')) \<and>
   (\<forall>(S', w) \<in> set wrappersf. declared S' \<and> (\<forall>f' m'. w rt h l ctx f' m' = Logf rt h l ctx S' f' m'))"
  by (simp add: wrappers_def wrappersf_def declared_def Std_def Stdf_def Critical_def Criticalf_def
      Warning_def Warningf_def Info_def Infof_def Debug_def Debugf_def)

text \<open>
  C1, amended. For a declared severity \<open>S\<close> and a threshold \<open>T\<close>, on a logger as \<open>New\<close>
  leaves it: the call writes the message, once, to the stream of \<open>S\<close>, exactly when
  \<open>T \<ge> 0\<close> and (\<open>S\<close> is Standard or \<open>S \<le> T\<close>) and the call is not ended by a failed
  write of the function-name diagnostic; when the condition on \<open>S\<close> and \<open>T\<close> fails the
  call returns nil and writes nothing; when \<open>T < 0\<close> every call, with any severity,
  returns nil and writes nothing, whatever else is given; \<open>Log\<close> and every
  per-severity operation is \<open>Logf\<close> at a declared severity.
\<close>

theorem threshold_filter:
  assumes u: "usable l" and se: "Err (options l) = Some se" and st: "stream_for l S = Some st"
    and d: "declared S"
  shows "writes_at Message (Logf rt h l ctx S f m) =
       (if 0 \<le>s Threshold (options l) \<and> (S = LevelStd \<or> S \<le>s Threshold (options l)) \<and>
           \<not> (lookup_fails rt l \<and> write_result rt 0 se (diagnostic_line rt l) \<noteq> None)
        then [(st, message_line rt h l ctx S f m)] else []) \<and>
     (\<not> (0 \<le>s Threshold (options l) \<and> (S = LevelStd \<or> S \<le>s Threshold (options l))) \<longrightarrow>
        Logf rt h l ctx S f m = (Returned None, [])) \<and>
     (Threshold (options l) <s 0 \<longrightarrow>
        (\<forall>rt' h' ctx' S' f' m'. Logf rt' h' l ctx' S' f' m' = (Returned None, []))) \<and>
     Log rt h l ctx S m = Logf rt h l ctx S [] m \<and>
     (\<forall>(S', w) \<in> set wrappers. declared S' \<and> (\<forall>m'. w rt h l ctx m' = Logf rt h l ctx S' [] m')) \<and>
     (\<forall>(S', w) \<in> set wrappersf. declared S' \<and> (\<forall>f' m'. w rt h l ctx f' m' = Logf rt h l ctx S' f' m'))"
proof -
  from d have c: "coerce S = S" by (rule coerce_declared)
  from st c have st': "stream_for l (coerce S) = Some st" by simp
  note ex = Logf_explicit [OF u se st', of rt h ctx f m]
  note ac = accepted_declared [OF d, of l]
  have 1: "writes_at Message (Logf rt h l ctx S f m) =
       (if 0 \<le>s Threshold (options l) \<and> (S = LevelStd \<or> S \<le>s Threshold (options l)) \<and>
           \<not> (lookup_fails rt l \<and> write_result rt 0 se (diagnostic_line rt l) \<noteq> None)
        then [(st, message_line rt h l ctx S f m)] else [])"
  proof (cases "accepted l S")
    case True
    with ac have "0 \<le>s Threshold (options l) \<and> (S = LevelStd \<or> S \<le>s Threshold (options l))" by simp
    with True show ?thesis unfolding ex by (auto simp: writes_at_def split: option.splits)
  next
    case False
    with ac have "\<not> (0 \<le>s Threshold (options l) \<and> (S = LevelStd \<or> S \<le>s Threshold (options l)))" by simp
    with False show ?thesis unfolding ex by (simp add: writes_at_def)
  qed
  have 2: "\<not> (0 \<le>s Threshold (options l) \<and> (S = LevelStd \<or> S \<le>s Threshold (options l))) \<longrightarrow>
        Logf rt h l ctx S f m = (Returned None, [])"
    using ac unfolding ex by simp
  have 3: "Threshold (options l) <s 0 \<longrightarrow>
        (\<forall>rt' h' ctx' S' f' m'. Logf rt' h' l ctx' S' f' m' = (Returned None, []))"
    by (simp add: Logf_filtered)
  have 4: "Log rt h l ctx S m = Logf rt h l ctx S [] m" by (simp add: Log_def)
  from 1 2 3 4 wrappers_Logf [of rt h l ctx] show ?thesis by blast
qed

lemma stream_for_cases:
  assumes "Out (options l) = Some so" and "Err (options l) = Some se"
  shows "stream_for l (coerce S) =
     Some (if coerce S = LevelCritical \<or> coerce S = LevelError \<or> coerce S = LevelWarning then se else so)"
proof -
  from coerce_range [of S] show ?thesis
  proof
    assume "declared (coerce S)"
    then show ?thesis
      using assms
      by (auto simp: declared_cases stream_for_def LevelStd_def LevelCritical_def LevelError_def
          LevelWarning_def LevelInfo_def word_sle_eq)
  next
    assume "S = 0x7FFFFFFFFFFFFFFF"
    then have "coerce S = 0x7FFFFFFFFFFFFFFF" by (simp add: coerce_max)
    then show ?thesis
      using assms
      by (simp add: stream_for_def LevelStd_def LevelCritical_def LevelError_def
          LevelWarning_def LevelInfo_def word_sle_eq)
  qed
qed

text \<open>
  C2, amended. The stream of a severity depends on the coerced severity alone, not on
  the threshold: Critical, Error and Warning go to the error stream, every other value
  to the output stream. A filtered message causes no write. An accepted message causes
  the write of the function-name diagnostic to the error stream when the lookup fails,
  and then one write of the message to the stream of its severity, unless that
  diagnostic write failed.
\<close>

theorem stream_routing:
  assumes u: "usable l" and so: "Out (options l) = Some so" and se: "Err (options l) = Some se"
  shows "stream_for l (coerce S) =
       Some (if coerce S = LevelCritical \<or> coerce S = LevelError \<or> coerce S = LevelWarning then se else so) \<and>
     (\<forall>T'. stream_for (l\<lparr>options := (options l)\<lparr>Threshold := T'\<rparr>\<rparr>) (coerce S) = stream_for l (coerce S)) \<and>
     snd (Logf rt h l ctx S f m) =
       (if \<not> accepted l S then []
        else (if lookup_fails rt l then [(Diagnostic, se, diagnostic_line rt l)] else []) @
             (if lookup_fails rt l \<and> write_result rt 0 se (diagnostic_line rt l) \<noteq> None then []
              else [(Message,
                     (if coerce S = LevelCritical \<or> coerce S = LevelError \<or> coerce S = LevelWarning
                      then se else so),
                     message_line rt h l ctx S f m)]))"
proof -
  note sf = stream_for_cases [OF so se, of S]
  note ex = Logf_explicit [OF u se sf, of rt h ctx f m]
  have 2: "\<forall>T'. stream_for (l\<lparr>options := (options l)\<lparr>Threshold := T'\<rparr>\<rparr>) (coerce S) = stream_for l (coerce S)"
    by (simp add: stream_for_def)
  have 3: "snd (Logf rt h l ctx S f m) =
       (if \<not> accepted l S then []
        else (if lookup_fails rt l then [(Diagnostic, se, diagnostic_line rt l)] else []) @
             (if lookup_fails rt l \<and> write_result rt 0 se (diagnostic_line rt l) \<noteq> None then []
              else [(Message,
                     (if coerce S = LevelCritical \<or> coerce S = LevelError \<or> coerce S = LevelWarning
                      then se else so),
                     message_line rt h l ctx S f m)]))"
    unfolding ex by (auto split: option.splits)
  from sf 2 3 show ?thesis by blast
qed



text \<open>
  C9, amended. For an accepted message, when function names are enabled and no caller
  frame is resolved, the first write is the diagnostic
  \<open>CRIT loggy.logger.Logf failed to dynamically lookup function name\<close> (after the
  timestamp, when enabled) to the error stream. If that write fails, the call ends
  there: in \<open>log.Fatal\<close> under \<open>LogFatal\<close>, otherwise returning the error, and the
  message is not written. If it succeeds, the message is written next, to the stream
  of its severity, with no function name: the label is followed at once by the tags
  and the prefix; the call returns the result of that write.
\<close>

theorem lookup_failure:
  assumes u: "usable l" and se: "Err (options l) = Some se"
    and st: "stream_for l (coerce S) = Some st"
    and a: "accepted l S" and lf: "lookup_fails rt l"
  shows "diagnostic_line rt l =
       timestamp_part rt l 0 @ ''CRIT loggy.logger.Logf failed to dynamically lookup function name'' \<and>
     message_line rt h l ctx S f m =
       timestamp_part rt l 1 @
       rendered rt f m (with_prefix l (with_tags h l ctx (LevelNames_at (coerce S)))) \<and>
     (case write_result rt 0 se (diagnostic_line rt l) of
        Some e \<Rightarrow>
          Logf rt h l ctx S f m =
            (if LogFatal (options l) then Fatal lookupErr else Returned (Some e),
             [(Diagnostic, se, diagnostic_line rt l)])
      | None \<Rightarrow>
          Logf rt h l ctx S f m =
            ((case write_result rt 1 st (message_line rt h l ctx S f m) of
                None \<Rightarrow> Returned None
              | Some e \<Rightarrow> if LogFatal (options l) then Fatal (message_body rt h l ctx S f m)
                          else Returned (Some e)),
             [(Diagnostic, se, diagnostic_line rt l), (Message, st, message_line rt h l ctx S f m)]))"
proof -
  note ex = Logf_explicit [OF u se st, of rt h ctx f m]
  have d: "diagnostic_line rt l =
       timestamp_part rt l 0 @ ''CRIT loggy.logger.Logf failed to dynamically lookup function name''"
    by (simp add: diagnostic_line_def lookupErr_def LevelNames_at_def LevelNames_def LevelCritical_def
        LevelDebug_def LevelError_def LevelInfo_def LevelWarning_def LevelStd_def)
  have ml: "message_line rt h l ctx S f m =
       timestamp_part rt l 1 @
       rendered rt f m (with_prefix l (with_tags h l ctx (LevelNames_at (coerce S))))"
    using lf by (simp add: message_line_def message_body_def heading_def lookup_fails_def)
  have r: "(case write_result rt 0 se (diagnostic_line rt l) of
        Some e \<Rightarrow>
          Logf rt h l ctx S f m =
            (if LogFatal (options l) then Fatal lookupErr else Returned (Some e),
             [(Diagnostic, se, diagnostic_line rt l)])
      | None \<Rightarrow>
          Logf rt h l ctx S f m =
            ((case write_result rt 1 st (message_line rt h l ctx S f m) of
                None \<Rightarrow> Returned None
              | Some e \<Rightarrow> if LogFatal (options l) then Fatal (message_body rt h l ctx S f m)
                          else Returned (Some e)),
             [(Diagnostic, se, diagnostic_line rt l), (Message, st, message_line rt h l ctx S f m)]))"
    unfolding ex using a lf by (simp add: after_write_def split: option.splits)
  from d ml r show ?thesis by blast
qed

lemmas Level_defs = LevelStd_def LevelCritical_def LevelError_def LevelWarning_def LevelInfo_def LevelDebug_def

lemma concrete_loggers:
  "options default_logger =
     \<lparr> Out = Some OsStdout, Err = Some OsStderr, Threshold = 0, Prefix = [], DisableTimestamps = False,
       TimestampFormat = RFC3339, TimestampFunc = Some TimeNow, LogFatal = False,
       DisableFunctionName = False, DisableTags = False, TagsContextKey = ContextKeyTags \<rparr>"
  "options info_logger =
     \<lparr> Out = Some OsStdout, Err = Some OsStderr, Threshold = 4, Prefix = [], DisableTimestamps = False,
       TimestampFormat = RFC3339, TimestampFunc = Some TimeNow, LogFatal = False,
       DisableFunctionName = False, DisableTags = False, TagsContextKey = ContextKeyTags \<rparr>"
  "options quiet_logger =
     \<lparr> Out = Some OsStdout, Err = Some OsStderr, Threshold = - 1, Prefix = [], DisableTimestamps = False,
       TimestampFormat = RFC3339, TimestampFunc = Some TimeNow, LogFatal = False,
       DisableFunctionName = False, DisableTags = False, TagsContextKey = ContextKeyTags \<rparr>"
  by (simp_all add: default_logger_def info_logger_def quiet_logger_def New_def zero_options_def
      DefaultOptions_def LevelInfo_def Let_def)

lemmas Logf_eval = Logf_def coerce_def function_name_def emit_def rendered_def chosen_format_def
  with_tags_def with_prefix_def stream_for_def stream_write_def maybePrefixTimestamp_def
  call_clock_def lookupErr_def LevelNames_at_def LevelNames_def Level_defs Tags_def Value_def
  concrete_loggers plain_rt_def no_frame_rt_def broken_rt_def empty_heap_def writes_at_def
  word_sless_alt word_sle_eq Let_def extra_def

text \<open>
  C1, as stated, fails where the function-name lookup fails and the write of its
  diagnostic fails: a Standard message at threshold 0 is not written, and the call
  returns the error.
\<close>

theorem diagnostic_abort_counterexample:
  "writes_at Message (Logf broken_rt empty_heap default_logger [] LevelStd [] [VStr ''hello'']) = [] \<and>
   fst (Logf broken_rt empty_heap default_logger [] LevelStd [] [VStr ''hello'']) =
     Returned (Some (IOError ''closed pipe'')) \<and>
   0 \<le>s Threshold (options default_logger)"
  by (simp add: Logf_eval)

text \<open>
  C2, as stated, fails where the function-name lookup fails and the streams work: an
  accepted Standard message causes two writes, one to each stream.
\<close>

theorem two_writes_counterexample:
  "snd (Logf no_frame_rt empty_heap default_logger [] LevelStd [] [VStr ''hello'']) =
     [(Diagnostic, OsStderr, ''T CRIT loggy.logger.Logf failed to dynamically lookup function name''),
      (Message, OsStdout, ''T OUT hello'' @ [CHR 0x0A])]"
  by (simp add: Logf_eval)

text \<open>
  C9, as stated, fails where the write of the diagnostic fails and \<open>LogFatal\<close> is not
  set: the call returns the error and the original message is not written.
\<close>

theorem message_aborted_counterexample:
  "Logf broken_rt empty_heap info_logger [] LevelCritical [] [VStr ''boom''] =
     (Returned (Some (IOError ''closed pipe'')),
      [(Diagnostic, OsStderr, ''T CRIT loggy.logger.Logf failed to dynamically lookup function name'')])"
  by (simp add: Logf_eval)

text \<open>
  C4, at the input where the code leaves it: for the largest \<open>int\<close>, \<open>severity+1\<close>
  wraps to the smallest one, the range test is false and the severity is not replaced
  by Standard. It has no label, and at threshold Info the message is dropped, where
  the out-of-range severity 6 is logged as Standard.
\<close>

theorem MaxInt_not_coerced:
  "coerce MaxInt = MaxInt \<and> \<not> declared MaxInt \<and> LevelNames_at MaxInt = [] \<and>
   Logf plain_rt empty_heap info_logger [] MaxInt [] [VStr ''hello''] = (Returned None, []) \<and>
   Logf plain_rt empty_heap info_logger [] 6 [] [VStr ''hello''] =
     (Returned None, [(Message, OsStdout, ''T OUT main.main hello'' @ [CHR 0x0A])])"
  by (simp add: Logf_eval MaxInt_def declared_def)


lemma concrete_usable:
  "usable default_logger" "usable info_logger" "usable quiet_logger"
  "Out (options default_logger) = Some OsStdout" "Err (options default_logger) = Some OsStderr"
  "Out (options info_logger) = Some OsStdout" "Err (options info_logger) = Some OsStderr"
  "Out (options quiet_logger) = Some OsStdout" "Err (options quiet_logger) = Some OsStderr"
  by (simp_all add: usable_def concrete_loggers)

lemma concrete_declared:
  "declared LevelStd" "declared LevelCritical" "declared LevelError" "declared LevelWarning"
  "declared LevelInfo" "declared LevelDebug"
  by (simp_all add: declared_def)

lemma coerce_values:
  "coerce 0 = 0" "coerce 1 = 1" "coerce 2 = 2" "coerce 3 = 3" "coerce 4 = 4" "coerce 5 = 5"
  by (simp_all add: coerce_def LevelNames_def word_sless_alt)

theorem threshold_filter_witness:
  "usable info_logger \<and> Err (options info_logger) = Some OsStderr \<and>
   stream_for info_logger LevelWarning = Some OsStderr \<and> declared LevelWarning \<and>
   writes_at Message (Logf plain_rt empty_heap info_logger [] LevelWarning [] [VStr ''x'']) =
     [(OsStderr, message_line plain_rt empty_heap info_logger [] LevelWarning [] [VStr ''x''])] \<and>
   stream_for info_logger LevelDebug = Some OsStdout \<and> declared LevelDebug \<and>
   \<not> (0 \<le>s Threshold (options info_logger) \<and>
       (LevelDebug = LevelStd \<or> LevelDebug \<le>s Threshold (options info_logger))) \<and>
   Logf plain_rt empty_heap info_logger [] LevelDebug [] [VStr ''x''] = (Returned None, []) \<and>
   Threshold (options quiet_logger) <s 0 \<and>
   Logf plain_rt empty_heap quiet_logger [] LevelStd [] [VStr ''x''] = (Returned None, []) \<and>
   (LevelInfo, Info) \<in> set wrappers \<and>
   Info plain_rt empty_heap info_logger [] [VStr ''x''] =
     Logf plain_rt empty_heap info_logger [] LevelInfo [] [VStr ''x'']"
proof -
  have sw: "stream_for info_logger LevelWarning = Some OsStderr"
    by (simp add: stream_for_def concrete_loggers Level_defs word_sle_eq)
  have sd: "stream_for info_logger LevelDebug = Some OsStdout"
    by (simp add: stream_for_def concrete_loggers Level_defs word_sle_eq)
  have ss: "stream_for quiet_logger LevelStd = Some OsStdout"
    by (simp add: stream_for_def concrete_loggers Level_defs word_sle_eq)
  have cw: "0 \<le>s Threshold (options info_logger) \<and>
      (LevelWarning = LevelStd \<or> LevelWarning \<le>s Threshold (options info_logger)) \<and>
      \<not> (lookup_fails plain_rt info_logger \<and>
         write_result plain_rt 0 OsStderr (diagnostic_line plain_rt info_logger) \<noteq> None)"
    by (simp add: concrete_loggers Level_defs word_sle_eq lookup_fails_def plain_rt_def)
  have cd: "\<not> (0 \<le>s Threshold (options info_logger) \<and>
       (LevelDebug = LevelStd \<or> LevelDebug \<le>s Threshold (options info_logger)))"
    by (simp add: concrete_loggers Level_defs word_sle_eq)
  have cq: "Threshold (options quiet_logger) <s 0"
    by (simp add: concrete_loggers word_sless_alt)
  have mw: "(LevelInfo, Info) \<in> set wrappers" by (simp add: wrappers_def)
  note t1 = threshold_filter [OF concrete_usable(2) concrete_usable(7) sw concrete_declared(4),
      of plain_rt empty_heap "[]" "[]" "[VStr ''x'']"]
  note t2 = threshold_filter [OF concrete_usable(2) concrete_usable(7) sd concrete_declared(6),
      of plain_rt empty_heap "[]" "[]" "[VStr ''x'']"]
  note t3 = threshold_filter [OF concrete_usable(3) concrete_usable(9) ss concrete_declared(1),
      of plain_rt empty_heap "[]" "[]" "[VStr ''x'']"]
  from t1 cw have 1: "writes_at Message (Logf plain_rt empty_heap info_logger [] LevelWarning [] [VStr ''x'']) =
     [(OsStderr, message_line plain_rt empty_heap info_logger [] LevelWarning [] [VStr ''x''])]"
    by simp
  from t2 cd have 2: "Logf plain_rt empty_heap info_logger [] LevelDebug [] [VStr ''x''] = (Returned None, [])"
    by blast
  from t3 cq have 3: "Logf plain_rt empty_heap quiet_logger [] LevelStd [] [VStr ''x''] = (Returned None, [])"
    by blast
  from t1 mw have 4: "Info plain_rt empty_heap info_logger [] [VStr ''x''] =
     Logf plain_rt empty_heap info_logger [] LevelInfo [] [VStr ''x'']"
    by blast
  from 1 2 3 4 sw sd cd cq mw concrete_usable(2) concrete_usable(7) concrete_declared(4) concrete_declared(6)
  show ?thesis by blast
qed

theorem stream_routing_witness:
  "usable info_logger \<and> Out (options info_logger) = Some OsStdout \<and>
   Err (options info_logger) = Some OsStderr \<and>
   stream_for info_logger (coerce LevelError) = Some OsStderr \<and>
   stream_for (info_logger\<lparr>options := (options info_logger)\<lparr>Threshold := 0\<rparr>\<rparr>) (coerce LevelError) =
     Some OsStderr \<and>
   accepted info_logger LevelError \<and>
   snd (Logf plain_rt empty_heap info_logger [] LevelError [] [VStr ''x'']) =
     [(Message, OsStderr, message_line plain_rt empty_heap info_logger [] LevelError [] [VStr ''x''])] \<and>
   \<not> accepted info_logger LevelDebug \<and>
   snd (Logf plain_rt empty_heap info_logger [] LevelDebug [] [VStr ''x'']) = []"
proof -
  have ce: "coerce LevelError = LevelError" "coerce LevelDebug = LevelDebug"
    by (simp_all add: coerce_declared concrete_declared)
  have ae: "accepted info_logger LevelError"
    by (simp add: accepted_def coerce_values concrete_loggers Level_defs word_sless_alt)
  have ad: "\<not> accepted info_logger LevelDebug"
    by (simp add: accepted_def coerce_values concrete_loggers Level_defs word_sless_alt)
  have nl: "\<not> lookup_fails plain_rt info_logger" by (simp add: lookup_fails_def plain_rt_def)
  have le: "LevelError \<noteq> LevelCritical" "LevelError \<noteq> LevelWarning" by (simp_all add: Level_defs)
  note r1 = stream_routing [OF concrete_usable(2) concrete_usable(6) concrete_usable(7),
      of LevelError plain_rt empty_heap "[]" "[]" "[VStr ''x'']"]
  note r2 = stream_routing [OF concrete_usable(2) concrete_usable(6) concrete_usable(7),
      of LevelDebug plain_rt empty_heap "[]" "[]" "[VStr ''x'']"]
  from r1 have 1: "stream_for info_logger (coerce LevelError) = Some OsStderr" by (simp add: ce)
  from r1 have 2: "stream_for (info_logger\<lparr>options := (options info_logger)\<lparr>Threshold := 0\<rparr>\<rparr>) (coerce LevelError) =
     Some OsStderr" by (simp add: ce)
  from r1 ae nl have 3: "snd (Logf plain_rt empty_heap info_logger [] LevelError [] [VStr ''x'']) =
     [(Message, OsStderr, message_line plain_rt empty_heap info_logger [] LevelError [] [VStr ''x''])]"
    by (simp add: ce)
  from r2 ad have 4: "snd (Logf plain_rt empty_heap info_logger [] LevelDebug [] [VStr ''x'']) = []"
    by simp
  from 1 2 3 4 ae ad concrete_usable(2) concrete_usable(6) concrete_usable(7) show ?thesis by blast
qed


theorem lookup_failure_witness:
  "usable info_logger \<and> Err (options info_logger) = Some OsStderr \<and>
   stream_for info_logger (coerce LevelStd) = Some OsStdout \<and>
   accepted info_logger LevelStd \<and> lookup_fails no_frame_rt info_logger \<and>
   write_result no_frame_rt 0 OsStderr (diagnostic_line no_frame_rt info_logger) = None \<and>
   Logf no_frame_rt empty_heap info_logger [] LevelStd [] [VStr ''x''] =
     (Returned None,
      [(Diagnostic, OsStderr, diagnostic_line no_frame_rt info_logger),
       (Message, OsStdout, message_line no_frame_rt empty_heap info_logger [] LevelStd [] [VStr ''x''])]) \<and>
   lookup_fails broken_rt info_logger \<and>
   Logf broken_rt empty_heap info_logger [] LevelStd [] [VStr ''x''] =
     (Returned (Some (IOError ''closed pipe'')),
      [(Diagnostic, OsStderr, diagnostic_line broken_rt info_logger)])"
proof -
  have ss: "stream_for info_logger (coerce LevelStd) = Some OsStdout"
    by (simp add: coerce_values stream_for_def concrete_loggers Level_defs word_sle_eq)
  have a: "accepted info_logger LevelStd"
    by (simp add: accepted_def coerce_values concrete_loggers Level_defs word_sless_alt)
  have lf: "lookup_fails broken_rt info_logger" "lookup_fails no_frame_rt info_logger"
    by (simp_all add: lookup_fails_def broken_rt_def no_frame_rt_def plain_rt_def concrete_loggers)
  have wr: "\<And>k s b. write_result broken_rt k s b = Some (IOError ''closed pipe'')"
    "\<And>k s b. write_result no_frame_rt k s b = None"
    by (simp_all add: broken_rt_def no_frame_rt_def plain_rt_def)
  have nf: "\<not> LogFatal (options info_logger)" by (simp add: concrete_loggers)
  note l1 = lookup_failure [OF concrete_usable(2) concrete_usable(7) ss a lf(2),
      of empty_heap "[]" "[]" "[VStr ''x'']"]
  note l2 = lookup_failure [OF concrete_usable(2) concrete_usable(7) ss a lf(1),
      of empty_heap "[]" "[]" "[VStr ''x'']"]
  from l1 have 1: "Logf no_frame_rt empty_heap info_logger [] LevelStd [] [VStr ''x''] =
     (Returned None,
      [(Diagnostic, OsStderr, diagnostic_line no_frame_rt info_logger),
       (Message, OsStdout, message_line no_frame_rt empty_heap info_logger [] LevelStd [] [VStr ''x''])])"
    by (simp add: wr)
  from l2 nf have 2: "Logf broken_rt empty_heap info_logger [] LevelStd [] [VStr ''x''] =
     (Returned (Some (IOError ''closed pipe'')),
      [(Diagnostic, OsStderr, diagnostic_line broken_rt info_logger)])"
    by (simp add: wr)
  from 1 2 ss a lf wr concrete_usable(2) concrete_usable(7) show ?thesis by simp
qed

section \<open>The rendered line\<close>

text \<open>The last piece of \<open>strings.Split(name, "/")\<close> is what follows the last \<open>/\<close>,
  or the whole name when it has none.\<close>

lemma Split_nonempty: "Split cs cur \<noteq> []"
  by (induction cs arbitrary: cur) auto

lemma Split_last:
  "last (Split cs cur) =
     (if CHR ''/'' \<in> set cs then rev (takeWhile (\<lambda>c. c \<noteq> CHR ''/'') (rev cs)) else cur @ cs)"
proof (induction cs arbitrary: cur)
  case Nil
  then show ?case by simp
next
  case (Cons c cs)
  have tw: "takeWhile (\<lambda>c. c \<noteq> CHR ''/'') (rev cs @ [c]) =
      (if CHR ''/'' \<in> set cs then takeWhile (\<lambda>c. c \<noteq> CHR ''/'') (rev cs)
       else rev cs @ (if c \<noteq> CHR ''/'' then [c] else []))"
    by (auto simp: takeWhile_append)
  show ?case
    by (simp add: Split_nonempty tw Cons [of "[]"] Cons [of "cur @ [c]"])
qed

lemma last_piece:
  "last (Split name []) =
     (if CHR ''/'' \<in> set name then rev (takeWhile (\<lambda>c. c \<noteq> CHR ''/'') (rev name)) else name)"
  by (simp add: Split_last)














end
